theory Spec2Isabelle
  imports Complex_Main "HOL-Library.Word"
begin

section \<open>Conventions of the embedding\<close>

text \<open>
  The collectors of the exporter read procfs and sysfs files, run one external tool and
  turn what they read into samples. The embedding makes the environment an argument of
  every collector:
  \<^item> a Go \<open>string\<close> is a byte sequence, here a \<open>string\<close> (a \<open>char list\<close>);
  \<^item> \<open>uint64\<close> is \<open>64 word\<close>: \<open>+\<close> and \<open>-\<close> wrap modulo \<open>2 ^ 64\<close>;
  \<^item> a \<open>float64\<close> is modelled by the real number it denotes, and \<open>float64(x)\<close> of a
    \<open>uint64\<close> by \<open>real (unat x)\<close>. The rounding of IEEE 754 and the values NaN and
    infinity are not modelled;
  \<^item> a file read through \<open>os.Open\<close> and \<open>bufio.Scanner\<close> is a \<open>text_file option\<close>:
    \<open>None\<close> when the open fails, otherwise the lines the scanner yields and whether
    \<open>scanner.Err()\<close> is non-nil after the last of them;
  \<^item> the files read with \<open>os.ReadFile\<close> are a map from path to content, \<open>None\<close>
    standing for a read error;
  \<^item> \<open>strconv.ParseFloat(s, 64)\<close> is a parameter \<open>pf\<close>, \<open>pf s = None\<close> standing for a
    non-nil error;
  \<^item> a pair \<open>(value, ok)\<close> returned by the source is an \<open>option\<close>;
  \<^item> the channel a collector sends its metrics to is the list of the samples sent, in
    the order of sending.
  The mutex of the CPU collector guards a sequence that the embedding runs in one step:
  calls on one collector are modelled one after the other.
\<close>

subsection \<open>Functions of the Go standard library\<close>

text \<open>
  The functions of package \<open>strings\<close> are modelled on bytes. White space is the ASCII
  white space of \<open>unicode.IsSpace\<close> (tab, line feed, vertical tab, form feed, carriage
  return, space); \<open>ToLower\<close> maps the ASCII capitals. The files of procfs and sysfs
  and the output of the tool are ASCII.
\<close>

definition isSpace :: "char \<Rightarrow> bool" where
  "isSpace c = (c \<in> {CHR 0x09, CHR 0x0A, CHR 0x0B, CHR 0x0C, CHR 0x0D, CHR '' ''})"

definition TrimSpace :: "string \<Rightarrow> string" where
  "TrimSpace s = rev (dropWhile isSpace (rev (dropWhile isSpace s)))"

fun fields_from :: "string \<Rightarrow> string \<Rightarrow> string list" where
  "fields_from cur [] = (if cur = [] then [] else [cur])"
| "fields_from cur (c # cs) =
     (if isSpace c then (if cur = [] then fields_from [] cs else cur # fields_from [] cs)
      else fields_from (cur @ [c]) cs)"

definition Fields :: "string \<Rightarrow> string list" where
  "Fields s = fields_from [] s"

definition HasPrefix :: "string \<Rightarrow> string \<Rightarrow> bool" where
  "HasPrefix s p = (length p \<le> length s \<and> take (length p) s = p)"

definition HasSuffix :: "string \<Rightarrow> string \<Rightarrow> bool" where
  "HasSuffix s p = (length p \<le> length s \<and> drop (length s - length p) s = p)"

definition TrimSuffix :: "string \<Rightarrow> string \<Rightarrow> string" where
  "TrimSuffix s p = (if HasSuffix s p then take (length s - length p) s else s)"

fun Contains :: "string \<Rightarrow> string \<Rightarrow> bool" where
  "Contains [] sub = (sub = [])"
| "Contains (c # cs) sub = (HasPrefix (c # cs) sub \<or> Contains cs sub)"

definition lower :: "char \<Rightarrow> char" where
  "lower c = (if 65 \<le> (of_char c :: nat) \<and> (of_char c :: nat) \<le> 90
              then char_of (of_char c + (32 :: nat)) else c)"

definition ToLower :: "string \<Rightarrow> string" where
  "ToLower s = map lower s"

text \<open>\<open>strings.Split(s, sep)\<close> for a separator of one byte: never the empty list.\<close>

fun Split :: "string \<Rightarrow> char \<Rightarrow> string list" where
  "Split [] sep = [[]]"
| "Split (c # cs) sep =
     (if c = sep then [] # Split cs sep
      else (case Split cs sep of [] \<Rightarrow> [[c]] | p # ps \<Rightarrow> (c # p) # ps))"

text \<open>\<open>strings.SplitN(s, sep, 2)\<close> for a separator of one byte: one or two parts.\<close>

definition SplitN2 :: "string \<Rightarrow> char \<Rightarrow> string list" where
  "SplitN2 s sep =
     (if sep \<in> set s then [takeWhile (\<lambda>c. c \<noteq> sep) s, tl (dropWhile (\<lambda>c. c \<noteq> sep) s)]
      else [s])"

text \<open>
  \<open>strconv.ParseUint(s, 10, 64)\<close> returns a value together with an error: 0 with a syntax
  error on the empty string and at the first byte that is no decimal digit, the largest
  \<open>uint64\<close> with a range error as soon as the digits read so far overflow.
\<close>

datatype num_error = ErrSyntax | ErrRange

definition isDigit :: "char \<Rightarrow> bool" where
  "isDigit c = (48 \<le> (of_char c :: nat) \<and> (of_char c :: nat) \<le> 57)"

definition cutoff :: "64 word" where
  "cutoff = 1844674407370955162"

definition maxVal :: "64 word" where
  "maxVal = 18446744073709551615"

fun parseUint_loop :: "64 word \<Rightarrow> string \<Rightarrow> 64 word \<times> num_error option" where
  "parseUint_loop n [] = (n, None)"
| "parseUint_loop n (c # cs) =
     (if \<not> isDigit c then (0, Some ErrSyntax)
      else if cutoff \<le> n then (maxVal, Some ErrRange)
      else (let n0 = n * 10; n1 = n0 + of_nat (of_char c - 48)
            in if n1 < n0 then (maxVal, Some ErrRange) else parseUint_loop n1 cs))"

definition ParseUint :: "string \<Rightarrow> 64 word \<times> num_error option" where
  "ParseUint s = (if s = [] then (0, Some ErrSyntax) else parseUint_loop 0 s)"

text \<open>\<open>fmt.Sprintf("%d", i)\<close> for an index that is not negative.\<close>

fun itoa :: "nat \<Rightarrow> string" where
  "itoa n = (if n < 10 then [char_of (48 + n)] else itoa (n div 10) @ [char_of (48 + n mod 10)])"

subsection \<open>The environment\<close>

record text_file =
  scanned :: "string list"
  scan_err :: bool

type_synonym filesystem = "string \<Rightarrow> string option"

type_synonym parse_float = "string \<Rightarrow> real option"

subsection \<open>Samples\<close>

datatype value_type = GaugeValue | CounterValue

record metric =
  desc :: string
  vtype :: value_type
  val :: real
  labels :: "string list"

definition MustNewConstMetric :: "string \<Rightarrow> value_type \<Rightarrow> real \<Rightarrow> string list \<Rightarrow> metric" where
  "MustNewConstMetric d t v ls = \<lparr>desc = d, vtype = t, val = v, labels = ls\<rparr>"

section \<open>CPU collector (collectors/cpu.go)\<close>

record CPUCollector =
  prevIdle :: "64 word"
  prevTotal :: "64 word"

definition NewCPUCollector :: CPUCollector where
  "NewCPUCollector = \<lparr>prevIdle = 0, prevTotal = 0\<rparr>"

text \<open>
  The body of the scanning loop of \<open>readCPUUsage\<close> for a line that starts with \<open>cpu \<close>
  and has at least 8 fields. The errors of \<open>ParseUint\<close> are dropped, as in the source.
\<close>

definition usage_of_fields :: "CPUCollector \<Rightarrow> string list \<Rightarrow> real option \<times> CPUCollector" where
  "usage_of_fields c flds =
     (let user = fst (ParseUint (flds ! 1));
          nice = fst (ParseUint (flds ! 2));
          system = fst (ParseUint (flds ! 3));
          idle = fst (ParseUint (flds ! 4));
          iowait = fst (ParseUint (flds ! 5));
          irq = fst (ParseUint (flds ! 6));
          softirq = fst (ParseUint (flds ! 7));
          total = user + nice + system + idle + iowait + irq + softirq;
          idleTotal = idle + iowait;
          prevTotal' = prevTotal c;
          prevIdle' = prevIdle c;
          c' = c\<lparr>prevTotal := total, prevIdle := idleTotal\<rparr>
      in if prevTotal' = 0 then (Some 0, c')
         else (let totalDelta = total - prevTotal';
                   idleDelta = idleTotal - prevIdle'
               in if totalDelta = 0 then (Some 0, c')
                  else (Some (real (unat (totalDelta - idleDelta)) / real (unat totalDelta) * 100), c')))"

fun usage_scan :: "CPUCollector \<Rightarrow> string list \<Rightarrow> real option \<times> CPUCollector" where
  "usage_scan c [] = (None, c)"
| "usage_scan c (line # rest) =
     (if \<not> HasPrefix line ''cpu '' then usage_scan c rest
      else (let flds = Fields line
            in if length flds < 8 then (None, c) else usage_of_fields c flds))"

definition readCPUUsage :: "CPUCollector \<Rightarrow> text_file option \<Rightarrow> real option \<times> CPUCollector" where
  "readCPUUsage c stat =
     (case stat of None \<Rightarrow> (None, c) | Some f \<Rightarrow> usage_scan c (scanned f))"

text \<open>\<open>readThermalTemp\<close>: a thermal zone's temp file, in millidegrees, as degrees Celsius.\<close>

definition readThermalTemp :: "filesystem \<Rightarrow> parse_float \<Rightarrow> string \<Rightarrow> real option" where
  "readThermalTemp fs pf path =
     (case fs path of
        None \<Rightarrow> None
      | Some data \<Rightarrow>
          (case pf (TrimSpace data) of
             None \<Rightarrow> None
           | Some millideg \<Rightarrow> Some (millideg / 1000)))"

definition thermal_type_path :: "nat \<Rightarrow> string" where
  "thermal_type_path i = ''/sys/class/thermal/thermal_zone'' @ itoa i @ ''/type''"

definition thermal_temp_path :: "nat \<Rightarrow> string" where
  "thermal_temp_path i = ''/sys/class/thermal/thermal_zone'' @ itoa i @ ''/temp''"

text \<open>The loop \<open>for i := 0; i < 10; i++\<close> of \<open>readCPUTemperature\<close>, from index \<open>i\<close> on.\<close>

function temp_scan :: "filesystem \<Rightarrow> parse_float \<Rightarrow> nat \<Rightarrow> real option" where
  "temp_scan fs pf i =
     (if i < 10 then
        (case fs (thermal_type_path i) of
           None \<Rightarrow> temp_scan fs pf (i + 1)
         | Some typeBytes \<Rightarrow>
             (let zoneType = ToLower (TrimSpace typeBytes)
              in if Contains zoneType ''cpu'' \<or> Contains zoneType ''soc''
                 then readThermalTemp fs pf (thermal_temp_path i)
                 else temp_scan fs pf (i + 1)))
      else readThermalTemp fs pf ''/sys/class/thermal/thermal_zone0/temp'')"
  by pat_completeness auto
termination
  by (relation "measure (\<lambda>(fs, pf, i). 10 - i)") auto

definition readCPUTemperature :: "filesystem \<Rightarrow> parse_float \<Rightarrow> real option" where
  "readCPUTemperature fs pf = temp_scan fs pf 0"

definition cpufreq_path :: "nat \<Rightarrow> string" where
  "cpufreq_path i = ''/sys/devices/system/cpu/cpu'' @ itoa i @ ''/cpufreq/scaling_cur_freq''"

text \<open>
  The loop \<open>for i := 0; i < 256; i++\<close> of \<open>readCPUFrequency\<close>, from index \<open>i\<close> on with
  the sum and the count so far: \<open>None\<close> is the early \<open>return 0, false\<close>, otherwise the
  sum and the count when the loop is left.
\<close>

function freq_loop :: "filesystem \<Rightarrow> parse_float \<Rightarrow> nat \<Rightarrow> real \<Rightarrow> nat \<Rightarrow> (real \<times> nat) option" where
  "freq_loop fs pf i totalFreq count =
     (if i < 256 then
        (case fs (cpufreq_path i) of
           None \<Rightarrow> (if i = 0 then None else Some (totalFreq, count))
         | Some data \<Rightarrow>
             (case pf (TrimSpace data) of
                None \<Rightarrow> freq_loop fs pf (i + 1) totalFreq count
              | Some freqKHz \<Rightarrow> freq_loop fs pf (i + 1) (totalFreq + freqKHz) (count + 1)))
      else Some (totalFreq, count))"
  by pat_completeness auto
termination
  by (relation "measure (\<lambda>(fs, pf, i, totalFreq, count). 256 - i)") auto

definition readCPUFrequency :: "filesystem \<Rightarrow> parse_float \<Rightarrow> real option" where
  "readCPUFrequency fs pf =
     (case freq_loop fs pf 0 0 0 of
        None \<Rightarrow> None
      | Some (totalFreq, count) \<Rightarrow>
          (if count = 0 then None else Some (totalFreq / real count / 1000)))"

definition emit :: "string \<Rightarrow> real option \<Rightarrow> metric list" where
  "emit d r = (case r of None \<Rightarrow> [] | Some v \<Rightarrow> [MustNewConstMetric d GaugeValue v []])"

definition CPUCollector_Collect ::
  "CPUCollector \<Rightarrow> text_file option \<Rightarrow> filesystem \<Rightarrow> parse_float \<Rightarrow> metric list \<times> CPUCollector" where
  "CPUCollector_Collect c stat fs pf =
     (let (usage, c') = readCPUUsage c stat
      in (emit ''cpu_usage_percent'' usage
          @ emit ''cpu_temperature_celsius'' (readCPUTemperature fs pf)
          @ emit ''cpu_frequency_mhz'' (readCPUFrequency fs pf), c'))"

section \<open>GPU collector\<close>

definition parseNvidiaSmiFloat :: "parse_float \<Rightarrow> string \<Rightarrow> real" where
  "parseNvidiaSmiFloat pf s =
     (let s' = TrimSpace s
      in if s' = [] \<or> s' = ''[N/A]'' \<or> s' = ''N/A'' then 0
         else (case pf s' of None \<Rightarrow> 0 | Some v \<Rightarrow> v))"

text \<open>\<open>nvidia_smi\<close> is the result of \<open>exec.Command(...).Output()\<close>: \<open>None\<close> for an error.\<close>

definition GPUCollector_Collect :: "parse_float \<Rightarrow> string option \<Rightarrow> metric list" where
  "GPUCollector_Collect pf nvidia_smi =
     (case nvidia_smi of
        None \<Rightarrow> []
      | Some out \<Rightarrow>
          (let lines = Split (TrimSpace out) (CHR 0x0A)
           in if length lines = 0 then []
              else (let flds = Split (lines ! 0) (CHR '','')
                    in if length flds < 4 then []
                       else (let utilization = parseNvidiaSmiFloat pf (flds ! 0);
                                 temp = parseNvidiaSmiFloat pf (flds ! 1);
                                 power = parseNvidiaSmiFloat pf (flds ! 2);
                                 freq = parseNvidiaSmiFloat pf (flds ! 3)
                             in [MustNewConstMetric ''gpu_utilization_percent'' GaugeValue utilization [],
                                 MustNewConstMetric ''gpu_temperature_celsius'' GaugeValue temp [],
                                 MustNewConstMetric ''gpu_frequency_mhz'' GaugeValue freq [],
                                 MustNewConstMetric ''gpu_power_watts'' GaugeValue power []]))))"

section \<open>Memory collector\<close>

type_synonym meminfo = "string \<Rightarrow> 64 word option"

text \<open>Reading a Go map at a key it does not hold gives the zero value.\<close>

definition index :: "meminfo \<Rightarrow> string \<Rightarrow> 64 word" where
  "index m k = (case m k of None \<Rightarrow> 0 | Some v \<Rightarrow> v)"

fun meminfo_scan :: "meminfo \<Rightarrow> string list \<Rightarrow> meminfo" where
  "meminfo_scan info [] = info"
| "meminfo_scan info (line # rest) =
     (let parts = SplitN2 line (CHR '':'')
      in if length parts \<noteq> 2 then meminfo_scan info rest
         else (let key = TrimSpace (parts ! 0);
                   valStr = TrimSpace (TrimSuffix (TrimSpace (parts ! 1)) '' kB'')
               in (case ParseUint valStr of
                     (v, Some err) \<Rightarrow> meminfo_scan info rest
                   | (v, None) \<Rightarrow> meminfo_scan (info(key \<mapsto> v)) rest)))"

text \<open>\<open>readMemInfo\<close> returns the map with \<open>scanner.Err()\<close>; \<open>None\<close> is a non-nil error.\<close>

definition readMemInfo :: "text_file option \<Rightarrow> meminfo option" where
  "readMemInfo f =
     (case f of
        None \<Rightarrow> None
      | Some t \<Rightarrow> (if scan_err t then None else Some (meminfo_scan Map.empty (scanned t))))"

definition MemoryCollector_Collect :: "text_file option \<Rightarrow> metric list" where
  "MemoryCollector_Collect f =
     (case readMemInfo f of
        None \<Rightarrow> []
      | Some memInfo \<Rightarrow>
          (let totalKB = index memInfo ''MemTotal'';
               freeKB = index memInfo ''MemFree'';
               buffersKB = index memInfo ''Buffers'';
               cachedKB = index memInfo ''Cached'';
               totalBytes = real (unat totalKB) * 1024;
               usedBytes = real (unat (totalKB - freeKB - buffersKB - cachedKB)) * 1024;
               usedBytes' = (if usedBytes < 0 then real (unat (totalKB - freeKB)) * 1024 else usedBytes)
           in [MustNewConstMetric ''memory_total_bytes'' GaugeValue totalBytes [],
               MustNewConstMetric ''memory_used_bytes'' GaugeValue usedBytes' []]))"

section \<open>Disk collector (collectors/disk.go)\<close>

fun hasAnyPrefix :: "string \<Rightarrow> string list \<Rightarrow> bool" where
  "hasAnyPrefix s [] = False"
| "hasAnyPrefix s (p # prefixes) = (if HasPrefix s p then True else hasAnyPrefix s prefixes)"

definition physicalPrefixes :: "string list" where
  "physicalPrefixes = [''sd'', ''nvme'', ''vd'', ''hd'', ''xvd'', ''mmcblk'']"

definition excludePrefixes :: "string list" where
  "excludePrefixes = [''loop'', ''ram'', ''dm-'', ''sr'', ''fd'']"

text \<open>
  \<open>ParseFloat\<close> with its error dropped: 0 on a syntax error (on a range error the source
  gets an infinity, which the reals do not have).
\<close>

definition parse_or_zero :: "parse_float \<Rightarrow> string \<Rightarrow> real" where
  "parse_or_zero pf s = (case pf s of None \<Rightarrow> 0 | Some v \<Rightarrow> v)"

fun diskio_scan :: "parse_float \<Rightarrow> string list \<Rightarrow> metric list" where
  "diskio_scan pf [] = []"
| "diskio_scan pf (line # rest) =
     (let flds = Fields line
      in if length flds < 14 then diskio_scan pf rest
         else (let device = flds ! 2
               in if hasAnyPrefix device excludePrefixes then diskio_scan pf rest
                  else if \<not> hasAnyPrefix device physicalPrefixes then diskio_scan pf rest
                  else (let reads = parse_or_zero pf (flds ! 3);
                            writes = parse_or_zero pf (flds ! 7)
                        in MustNewConstMetric ''diskio_reads_completed_total'' CounterValue reads [device]
                           # MustNewConstMetric ''diskio_writes_completed_total'' CounterValue writes [device]
                           # diskio_scan pf rest)))"

definition collectDiskIO :: "parse_float \<Rightarrow> text_file option \<Rightarrow> metric list" where
  "collectDiskIO pf diskstats =
     (case diskstats of None \<Rightarrow> [] | Some f \<Rightarrow> diskio_scan pf (scanned f))"

section \<open>Network collector\<close>

definition monitoredInterfaces :: "string list" where
  "monitoredInterfaces =
     [''enP7s7'', ''enp1s0f1np1'', ''enP2p1s0f1np1'', ''enp1s0f0np0'', ''enP2p1s0f0np0'', ''wlP9s9'']"

text \<open>
  \<open>filepath.Join\<close> on elements that are clean already (no empty element, no dot element,
  no separator at an end but the leading one), as all its arguments in the source are.
\<close>

fun Join :: "string list \<Rightarrow> string" where
  "Join [] = []"
| "Join [e] = e"
| "Join (e # es) = e @ ''/'' @ Join es"

definition isInterfaceUp :: "filesystem \<Rightarrow> string \<Rightarrow> bool" where
  "isInterfaceUp fs iface =
     (case fs (Join [''/sys/class/net'', iface, ''operstate'']) of
        None \<Rightarrow> False
      | Some data \<Rightarrow> TrimSpace data = ''up'')"

definition readSysUint64 :: "filesystem \<Rightarrow> string \<Rightarrow> 64 word" where
  "readSysUint64 fs path =
     (case fs path of
        None \<Rightarrow> 0
      | Some data \<Rightarrow>
          (case ParseUint (TrimSpace data) of
             (v, Some err) \<Rightarrow> 0
           | (v, None) \<Rightarrow> v))"

definition interface_samples :: "filesystem \<Rightarrow> string \<Rightarrow> metric list" where
  "interface_samples fs iface =
     (let statsDir = Join [''/sys/class/net'', iface, ''statistics''];
          rxBytes = readSysUint64 fs (Join [statsDir, ''rx_bytes'']);
          txBytes = readSysUint64 fs (Join [statsDir, ''tx_bytes'']);
          rxPackets = readSysUint64 fs (Join [statsDir, ''rx_packets'']);
          txPackets = readSysUint64 fs (Join [statsDir, ''tx_packets''])
      in [MustNewConstMetric ''network_receive_bytes_total'' CounterValue (real (unat rxBytes)) [iface],
          MustNewConstMetric ''network_transmit_bytes_total'' CounterValue (real (unat txBytes)) [iface],
          MustNewConstMetric ''network_receive_packets_total'' CounterValue (real (unat rxPackets)) [iface],
          MustNewConstMetric ''network_transmit_packets_total'' CounterValue (real (unat txPackets)) [iface]])"

text \<open>The loop \<open>for _, iface := range monitoredInterfaces\<close> over the interfaces left.\<close>

fun network_loop :: "filesystem \<Rightarrow> string list \<Rightarrow> metric list" where
  "network_loop fs [] = []"
| "network_loop fs (iface # rest) =
     (if \<not> isInterfaceUp fs iface then network_loop fs rest
      else interface_samples fs iface @ network_loop fs rest)"

definition NetworkCollector_Collect :: "filesystem \<Rightarrow> metric list" where
  "NetworkCollector_Collect fs = network_loop fs monitoredInterfaces"

section \<open>Notions used to state the properties\<close>

text \<open>
  The test the loop of \<open>readCPUTemperature\<close> makes on the zone of index \<open>i\<close>: its type
  file can be read and its type, trimmed and in lower case, contains \<open>cpu\<close> or \<open>soc\<close>.
\<close>

definition zone_matches :: "filesystem \<Rightarrow> nat \<Rightarrow> bool" where
  "zone_matches fs i =
     (case fs (thermal_type_path i) of
        None \<Rightarrow> False
      | Some typeBytes \<Rightarrow>
          Contains (ToLower (TrimSpace typeBytes)) ''cpu''
          \<or> Contains (ToLower (TrimSpace typeBytes)) ''soc'')"

text \<open>The aggregate line of the counters file: the first line that starts with \<open>cpu \<close>.\<close>

definition aggregate_line :: "text_file \<Rightarrow> string option" where
  "aggregate_line f = find (\<lambda>l. HasPrefix l ''cpu '') (scanned f)"

text \<open>The samples of a list that carry the label \<open>l\<close> alone.\<close>

definition labelled :: "string \<Rightarrow> metric list \<Rightarrow> metric list" where
  "labelled l ms = filter (\<lambda>m. labels m = [l]) ms"

text \<open>
  The values that \<open>readCPUFrequency\<close> parses from the frequency files of the cores
  \<open>i, \<dots>, n - 1\<close>, in this order; a file whose content does not parse gives none.
\<close>

definition core_values :: "filesystem \<Rightarrow> parse_float \<Rightarrow> nat \<Rightarrow> nat \<Rightarrow> real list" where
  "core_values fs pf i n =
     List.map_filter
       (\<lambda>j. case fs (cpufreq_path j) of None \<Rightarrow> None | Some data \<Rightarrow> pf (TrimSpace data))
       [i..<n]"

declare temp_scan.simps [simp del]
declare freq_loop.simps [simp del]

section \<open>CPU usage\<close>

lemma unsigned_real_nonneg: "0 \<le> (unsigned (w :: 64 word) :: real)"
  by (metis of_nat_unat of_nat_0_le_iff)

lemma usage_scan_find:
  "usage_scan c lines =
     (case find (\<lambda>l. HasPrefix l ''cpu '') lines of
        None \<Rightarrow> (None, c)
      | Some line \<Rightarrow>
          (if length (Fields line) < 8 then (None, c) else usage_of_fields c (Fields line)))"
  by (induction lines) (simp_all add: Let_def)

lemma usage_of_fields_nonneg:
  "fst (usage_of_fields c flds) = Some u \<Longrightarrow> 0 \<le> u"
  by (auto simp: usage_of_fields_def Let_def unsigned_real_nonneg split: if_splits)

lemma usage_of_fields_present: "\<exists>u c'. usage_of_fields c flds = (Some u, c')"
  by (simp add: usage_of_fields_def Let_def)

text \<open>
  C1. When the counters file opens and its aggregate line has at least 8 fields,
  \<open>readCPUUsage\<close> stores \<open>total = user + nice + system + idle + iowait + irq + softirq\<close>
  and \<open>idleTotal = idle + iowait\<close> as the new previous state and returns a usage: 0 when the
  stored previous total is 0, 0 when \<open>totalDelta = total - prevTotal\<close> is 0 (nothing is
  divided), and \<open>(totalDelta - idleDelta) / totalDelta * 100\<close> otherwise, the sums and the
  differences being those of \<open>uint64\<close>. On a fresh collector the usage is 0.
\<close>

theorem readCPUUsage_formula:
  assumes "aggregate_line f = Some line"
    and "8 \<le> length (Fields line)"
  shows "(let n = (\<lambda>k. fst (ParseUint (Fields line ! k)));
              total = n 1 + n 2 + n 3 + n 4 + n 5 + n 6 + n 7;
              idleTotal = n 4 + n 5;
              totalDelta = total - prevTotal c;
              idleDelta = idleTotal - prevIdle c
          in readCPUUsage c (Some f) =
               (Some (if prevTotal c = 0 then 0
                      else if totalDelta = 0 then 0
                      else real (unat (totalDelta - idleDelta)) / real (unat totalDelta) * 100),
                c\<lparr>prevTotal := total, prevIdle := idleTotal\<rparr>)
             \<and> fst (readCPUUsage NewCPUCollector (Some f)) = Some 0)"
  using assms
  by (simp add: aggregate_line_def readCPUUsage_def usage_scan_find usage_of_fields_def
      Let_def NewCPUCollector_def)

theorem readCPUUsage_formula_witness:
  "readCPUUsage \<lparr>prevIdle = 100, prevTotal = 200\<rparr>
     (Some \<lparr>scanned = [''intr 5'', ''cpu  150 0 0 140 10 0 0 0 0 0'', ''cpu0 1 1 1 1 1 1 1 1 1 1''],
             scan_err = False\<rparr>)
   = (Some 50, \<lparr>prevIdle = 150, prevTotal = 300\<rparr>)
   \<and> fst (readCPUUsage NewCPUCollector
       (Some \<lparr>scanned = [''intr 5'', ''cpu  150 0 0 140 10 0 0 0 0 0'', ''cpu0 1 1 1 1 1 1 1 1 1 1''],
               scan_err = False\<rparr>)) = Some 0"
proof -
  let ?f = "\<lparr>scanned = [''intr 5'', ''cpu  150 0 0 140 10 0 0 0 0 0'', ''cpu0 1 1 1 1 1 1 1 1 1 1''],
             scan_err = False\<rparr>"
  let ?line = "''cpu  150 0 0 140 10 0 0 0 0 0''"
  have h1: "aggregate_line ?f = Some ?line"
    by code_simp
  have flds: "Fields ?line = [''cpu'', ''150'', ''0'', ''0'', ''140'', ''10'', ''0'', ''0'', ''0'', ''0'', ''0'']"
    by code_simp
  have h2: "8 \<le> length (Fields ?line)"
    by (simp add: flds)
  have p: "ParseUint ''150'' = (150, None)" "ParseUint ''0'' = (0, None)"
    "ParseUint ''140'' = (140, None)" "ParseUint ''10'' = (10, None)"
    by code_simp+
  show ?thesis
    using readCPUUsage_formula [OF h1 h2, of "\<lparr>prevIdle = 100, prevTotal = 200\<rparr>"]
    by (simp add: flds p Let_def)
qed

text \<open>
  C10. Every usage that \<open>readCPUUsage\<close> returns is at least 0, whatever the previous state
  and the counters read: the deltas are \<open>uint64\<close> values, which wrap and are never negative,
  so a reading that went backwards can give a usage above 100 but not one below 0.
\<close>

theorem readCPUUsage_nonneg:
  "fst (readCPUUsage c stat) = Some u \<Longrightarrow> 0 \<le> u"
  by (auto simp: readCPUUsage_def usage_scan_find usage_of_fields_nonneg
      split: option.splits if_splits)

theorem readCPUUsage_nonneg_witness:
  "fst (readCPUUsage \<lparr>prevIdle = 100, prevTotal = 200\<rparr>
         (Some \<lparr>scanned = [''cpu  90 0 0 120 0 0 0 0 0 0''], scan_err = False\<rparr>))
     = Some 184467440737095516060
   \<and> (0 :: real) \<le> 184467440737095516060"
proof -
  have flds: "Fields ''cpu  90 0 0 120 0 0 0 0 0 0'' =
      [''cpu'', ''90'', ''0'', ''0'', ''120'', ''0'', ''0'', ''0'', ''0'', ''0'', ''0'']"
    by code_simp
  have p: "ParseUint ''90'' = (90, None)" "ParseUint ''0'' = (0, None)"
    "ParseUint ''120'' = (120, None)"
    by code_simp+
  have hp: "HasPrefix ''cpu  90 0 0 120 0 0 0 0 0 0'' ''cpu ''"
    by code_simp
  have e: "fst (readCPUUsage \<lparr>prevIdle = 100, prevTotal = 200\<rparr>
                 (Some \<lparr>scanned = [''cpu  90 0 0 120 0 0 0 0 0 0''], scan_err = False\<rparr>))
             = Some 184467440737095516060"
    by (simp add: readCPUUsage_def hp flds usage_of_fields_def p Let_def)
  show ?thesis
    using readCPUUsage_nonneg [OF e] e by simp
qed

text \<open>
  C3, as the claim states it, fails: a counter field that is not a number does not make the
  usage sample absent. \<open>ParseUint\<close> reports a syntax error on \<open>x\<close>, the source drops the
  error and goes on with the value 0, and the usage is returned.
\<close>

theorem usage_nonnumeric_counterexample:
  "snd (ParseUint ''x'') = Some ErrSyntax \<and>
   readCPUUsage \<lparr>prevIdle = 40, prevTotal = 70\<rparr>
     (Some \<lparr>scanned = [''cpu  x 20 30 40 50 60 70 0 0 0''], scan_err = False\<rparr>)
   = (Some 75, \<lparr>prevIdle = 90, prevTotal = 270\<rparr>)"
  by code_simp

text \<open>
  C3, amended. When the counters file fails to open, has no aggregate line, or its
  aggregate line has fewer than 8 fields, \<open>Collect\<close> sends no usage sample, leaves the
  collector's state as it was, and sends the temperature and frequency samples as it would
  have otherwise. When the aggregate line has at least 8 fields the usage sample is sent
  whatever the counter fields hold, before the same temperature and frequency samples.
\<close>

theorem CPUCollector_Collect_usage_failure:
  "((case stat of
       None \<Rightarrow> True
     | Some f \<Rightarrow>
         (case aggregate_line f of
            None \<Rightarrow> True
          | Some line \<Rightarrow> length (Fields line) < 8)) \<longrightarrow>
    CPUCollector_Collect c stat fs pf =
      (emit ''cpu_temperature_celsius'' (readCPUTemperature fs pf)
       @ emit ''cpu_frequency_mhz'' (readCPUFrequency fs pf), c)) \<and>
   (aggregate_line f = Some line \<and> 8 \<le> length (Fields line) \<longrightarrow>
    (\<exists>u. fst (CPUCollector_Collect c (Some f) fs pf) =
       MustNewConstMetric ''cpu_usage_percent'' GaugeValue u []
       # emit ''cpu_temperature_celsius'' (readCPUTemperature fs pf)
       @ emit ''cpu_frequency_mhz'' (readCPUFrequency fs pf)))"
proof (intro conjI impI)
  assume "case stat of
       None \<Rightarrow> True
     | Some f \<Rightarrow>
         (case aggregate_line f of
            None \<Rightarrow> True
          | Some line \<Rightarrow> length (Fields line) < 8)"
  then have "readCPUUsage c stat = (None, c)"
    by (auto simp: aggregate_line_def readCPUUsage_def usage_scan_find split: option.splits)
  then show "CPUCollector_Collect c stat fs pf =
      (emit ''cpu_temperature_celsius'' (readCPUTemperature fs pf)
       @ emit ''cpu_frequency_mhz'' (readCPUFrequency fs pf), c)"
    by (simp add: CPUCollector_Collect_def emit_def)
next
  assume a: "aggregate_line f = Some line \<and> 8 \<le> length (Fields line)"
  obtain u c' where "usage_of_fields c (Fields line) = (Some u, c')"
    using usage_of_fields_present by blast
  with a have "readCPUUsage c (Some f) = (Some u, c')"
    by (simp add: aggregate_line_def readCPUUsage_def usage_scan_find)
  then show "\<exists>u. fst (CPUCollector_Collect c (Some f) fs pf) =
       MustNewConstMetric ''cpu_usage_percent'' GaugeValue u []
       # emit ''cpu_temperature_celsius'' (readCPUTemperature fs pf)
       @ emit ''cpu_frequency_mhz'' (readCPUFrequency fs pf)"
    by (auto simp: CPUCollector_Collect_def emit_def)
qed

theorem CPUCollector_Collect_usage_failure_witness:
  "CPUCollector_Collect \<lparr>prevIdle = 40, prevTotal = 70\<rparr>
      (Some \<lparr>scanned = [''cpu  1 2 3 4 5 6''], scan_err = False\<rparr>)
      (\<lambda>p. if p = ''/sys/class/thermal/thermal_zone0/type'' then Some ''cpu-thermal''
           else if p = ''/sys/class/thermal/thermal_zone0/temp'' then Some ''45000'' else None)
      (\<lambda>s. if s = ''45000'' then Some 45000 else None)
    = ([\<lparr>desc = ''cpu_temperature_celsius'', vtype = GaugeValue, val = 45, labels = []\<rparr>],
       \<lparr>prevIdle = 40, prevTotal = 70\<rparr>)
   \<and> (\<exists>u. fst (CPUCollector_Collect \<lparr>prevIdle = 40, prevTotal = 70\<rparr>
      (Some \<lparr>scanned = [''cpu  x 20 30 40 50 60 70 0 0 0''], scan_err = False\<rparr>)
      (\<lambda>p. if p = ''/sys/class/thermal/thermal_zone0/type'' then Some ''cpu-thermal''
           else if p = ''/sys/class/thermal/thermal_zone0/temp'' then Some ''45000'' else None)
      (\<lambda>s. if s = ''45000'' then Some 45000 else None))
    = [\<lparr>desc = ''cpu_usage_percent'', vtype = GaugeValue, val = u, labels = []\<rparr>,
       \<lparr>desc = ''cpu_temperature_celsius'', vtype = GaugeValue, val = 45, labels = []\<rparr>])"
proof -
  let ?c = "\<lparr>prevIdle = 40, prevTotal = 70\<rparr>"
  let ?f1 = "\<lparr>scanned = [''cpu  1 2 3 4 5 6''], scan_err = False\<rparr>"
  let ?f2 = "\<lparr>scanned = [''cpu  x 20 30 40 50 60 70 0 0 0''], scan_err = False\<rparr>"
  let ?fs = "(\<lambda>p. if p = ''/sys/class/thermal/thermal_zone0/type'' then Some ''cpu-thermal''
           else if p = ''/sys/class/thermal/thermal_zone0/temp'' then Some ''45000'' else None)"
  let ?pf = "(\<lambda>s. if s = ''45000'' then Some 45000 else None) :: parse_float"
  have h1: "case Some ?f1 of
       None \<Rightarrow> True
     | Some f \<Rightarrow>
         (case aggregate_line f of
            None \<Rightarrow> True
          | Some line \<Rightarrow> length (Fields line) < 8)"
    by code_simp
  have h2: "aggregate_line ?f2 = Some ''cpu  x 20 30 40 50 60 70 0 0 0''
      \<and> 8 \<le> length (Fields ''cpu  x 20 30 40 50 60 70 0 0 0'')"
    by code_simp
  have t: "emit ''cpu_temperature_celsius'' (readCPUTemperature ?fs ?pf) =
      [\<lparr>desc = ''cpu_temperature_celsius'', vtype = GaugeValue, val = 45, labels = []\<rparr>]"
    by code_simp
  have q: "emit ''cpu_frequency_mhz'' (readCPUFrequency ?fs ?pf) = []"
    by code_simp
  note inst = CPUCollector_Collect_usage_failure
    [of "Some ?f1" ?c ?fs ?pf ?f2 "''cpu  x 20 30 40 50 60 70 0 0 0''"]
  have a: "CPUCollector_Collect ?c (Some ?f1) ?fs ?pf =
      ([\<lparr>desc = ''cpu_temperature_celsius'', vtype = GaugeValue, val = 45, labels = []\<rparr>], ?c)"
    using inst [THEN conjunct1, THEN mp, OF h1] unfolding t q by simp
  have b: "\<exists>u. fst (CPUCollector_Collect ?c (Some ?f2) ?fs ?pf) =
      [\<lparr>desc = ''cpu_usage_percent'', vtype = GaugeValue, val = u, labels = []\<rparr>,
       \<lparr>desc = ''cpu_temperature_celsius'', vtype = GaugeValue, val = 45, labels = []\<rparr>]"
    using inst [THEN conjunct2, THEN mp, OF h2] unfolding t q MustNewConstMetric_def by simp
  show ?thesis
    using a b by blast
qed

section \<open>CPU temperature\<close>

lemma thermal_temp_path_0: "thermal_temp_path 0 = ''/sys/class/thermal/thermal_zone0/temp''"
  by code_simp

lemma temp_scan_step:
  "i < 10 \<Longrightarrow> \<not> zone_matches fs i \<Longrightarrow> temp_scan fs pf i = temp_scan fs pf (Suc i)"
  by (subst temp_scan.simps) (auto simp: zone_matches_def Let_def split: option.splits)

lemma temp_scan_hit:
  "i < 10 \<Longrightarrow> zone_matches fs i \<Longrightarrow>
   temp_scan fs pf i = readThermalTemp fs pf (thermal_temp_path i)"
  by (subst temp_scan.simps) (auto simp: zone_matches_def Let_def split: option.splits)

lemma temp_scan_end:
  "temp_scan fs pf 10 = readThermalTemp fs pf (thermal_temp_path 0)"
  by (subst temp_scan.simps) (simp add: thermal_temp_path_0)

lemma temp_scan_skip:
  "i \<le> k \<Longrightarrow> k \<le> 10 \<Longrightarrow> (\<forall>j. i \<le> j \<and> j < k \<longrightarrow> \<not> zone_matches fs j) \<Longrightarrow>
   temp_scan fs pf i = temp_scan fs pf k"
proof (induction i rule: inc_induct)
  case base
  show ?case by simp
next
  case (step n)
  then have "temp_scan fs pf n = temp_scan fs pf (Suc n)"
    by (intro temp_scan_step) auto
  with step show ?case by simp
qed

text \<open>
  C6. \<open>readCPUTemperature\<close> goes through the zones 0 to 9 in increasing order and takes the
  first one whose type file can be read and whose type, trimmed and in lower case, contains
  \<open>cpu\<close> or \<open>soc\<close>: the result is that zone's temp file, in millidegrees, divided by 1000.
  When no zone of the range matches, the result is read from zone 0. A temp file that cannot
  be read gives no sample. With the types \<open>x86_pkg_temp\<close>, \<open>acpitz\<close> and \<open>cpu-thermal\<close>
  at the indices 0, 1 and 2 the temperature is that of zone 2.
\<close>

theorem readCPUTemperature_selection:
  "(k < 10 \<and> zone_matches fs k \<and> (\<forall>j < k. \<not> zone_matches fs j) \<longrightarrow>
      readCPUTemperature fs pf = readThermalTemp fs pf (thermal_temp_path k)) \<and>
   ((\<forall>j < 10. \<not> zone_matches fs j) \<longrightarrow>
      readCPUTemperature fs pf = readThermalTemp fs pf (thermal_temp_path 0)) \<and>
   (fs path = None \<longrightarrow> readThermalTemp fs pf path = None) \<and>
   (fs path' = Some data \<and> pf (TrimSpace data) = Some millideg \<longrightarrow>
      readThermalTemp fs pf path' = Some (millideg / 1000)) \<and>
   (fs' (thermal_type_path 0) = Some ''x86_pkg_temp'' \<and> fs' (thermal_type_path 1) = Some ''acpitz''
      \<and> fs' (thermal_type_path 2) = Some ''cpu-thermal'' \<longrightarrow>
      readCPUTemperature fs' pf = readThermalTemp fs' pf (thermal_temp_path 2))"
proof -
  have c1: "readCPUTemperature fs pf = readThermalTemp fs pf (thermal_temp_path k)"
    if "k < 10 \<and> zone_matches fs k \<and> (\<forall>j < k. \<not> zone_matches fs j)" for fs k
  proof -
    from that have "temp_scan fs pf 0 = temp_scan fs pf k"
      by (intro temp_scan_skip) auto
    with that show ?thesis
      by (simp add: readCPUTemperature_def temp_scan_hit)
  qed
  have c2: "readCPUTemperature fs pf = readThermalTemp fs pf (thermal_temp_path 0)"
    if "\<forall>j < 10. \<not> zone_matches fs j"
  proof -
    from that have "temp_scan fs pf 0 = temp_scan fs pf 10"
      by (intro temp_scan_skip) auto
    then show ?thesis
      by (simp add: readCPUTemperature_def temp_scan_end)
  qed
  have c3: "readThermalTemp fs pf path = None" if "fs path = None"
    using that by (simp add: readThermalTemp_def)
  have c4: "readThermalTemp fs pf path' = Some (millideg / 1000)"
    if "fs path' = Some data \<and> pf (TrimSpace data) = Some millideg"
    using that by (simp add: readThermalTemp_def)
  have c5: "readCPUTemperature fs' pf = readThermalTemp fs' pf (thermal_temp_path 2)"
    if a: "fs' (thermal_type_path 0) = Some ''x86_pkg_temp'' \<and> fs' (thermal_type_path 1) = Some ''acpitz''
      \<and> fs' (thermal_type_path 2) = Some ''cpu-thermal''"
  proof -
    have l: "\<not> Contains (ToLower (TrimSpace ''x86_pkg_temp'')) ''cpu''"
      "\<not> Contains (ToLower (TrimSpace ''x86_pkg_temp'')) ''soc''"
      "\<not> Contains (ToLower (TrimSpace ''acpitz'')) ''cpu''"
      "\<not> Contains (ToLower (TrimSpace ''acpitz'')) ''soc''"
      "Contains (ToLower (TrimSpace ''cpu-thermal'')) ''cpu''"
      by code_simp+
    from a l have z: "\<not> zone_matches fs' 0" "\<not> zone_matches fs' 1" "zone_matches fs' 2"
      by (simp_all add: zone_matches_def)
    have "\<forall>j < 2. \<not> zone_matches fs' j"
    proof (intro allI impI)
      fix j :: nat assume "j < 2"
      then have "j = 0 \<or> j = 1" by auto
      with z show "\<not> zone_matches fs' j" by auto
    qed
    with z show ?thesis
      using c1 [of 2 fs'] by simp
  qed
  show ?thesis
    using c1 c2 c3 c4 c5 by blast
qed

theorem readCPUTemperature_selection_witness:
  "readCPUTemperature
     (\<lambda>p. if p = ''/sys/class/thermal/thermal_zone0/type'' then Some ''x86_pkg_temp''
          else if p = ''/sys/class/thermal/thermal_zone0/temp'' then Some ''30000''
          else if p = ''/sys/class/thermal/thermal_zone1/type'' then Some ''acpitz''
          else if p = ''/sys/class/thermal/thermal_zone2/type'' then Some ''cpu-thermal''
          else if p = ''/sys/class/thermal/thermal_zone2/temp'' then Some ''48000''
          else None)
     (\<lambda>s. if s = ''30000'' then Some 30000 else if s = ''48000'' then Some 48000 else None)
   = Some 48
   \<and> readCPUTemperature
     (\<lambda>p. if p = ''/sys/class/thermal/thermal_zone0/type'' then Some ''acpitz''
          else if p = ''/sys/class/thermal/thermal_zone0/temp'' then Some ''30000''
          else None)
     (\<lambda>s. if s = ''30000'' then Some 30000 else if s = ''48000'' then Some 48000 else None)
   = Some 30
   \<and> readCPUTemperature
     (\<lambda>p. if p = ''/sys/class/thermal/thermal_zone0/type'' then Some ''acpitz'' else None)
     (\<lambda>s. if s = ''30000'' then Some 30000 else if s = ''48000'' then Some 48000 else None)
   = None"
proof -
  let ?three = "\<lambda>p. if p = ''/sys/class/thermal/thermal_zone0/type'' then Some ''x86_pkg_temp''
          else if p = ''/sys/class/thermal/thermal_zone0/temp'' then Some ''30000''
          else if p = ''/sys/class/thermal/thermal_zone1/type'' then Some ''acpitz''
          else if p = ''/sys/class/thermal/thermal_zone2/type'' then Some ''cpu-thermal''
          else if p = ''/sys/class/thermal/thermal_zone2/temp'' then Some ''48000''
          else None"
  let ?one = "\<lambda>p. if p = ''/sys/class/thermal/thermal_zone0/type'' then Some ''acpitz''
          else if p = ''/sys/class/thermal/thermal_zone0/temp'' then Some ''30000''
          else None"
  let ?notemp = "\<lambda>p. if p = ''/sys/class/thermal/thermal_zone0/type'' then Some ''acpitz'' else None"
  let ?pf = "\<lambda>s. if s = ''30000'' then Some (30000 :: real) else if s = ''48000'' then Some 48000 else None"
  have l: "\<not> Contains (ToLower (TrimSpace ''acpitz'')) ''cpu''"
    "\<not> Contains (ToLower (TrimSpace ''acpitz'')) ''soc''"
    "\<not> Contains (ToLower (TrimSpace ''30000'')) ''cpu''"
    "\<not> Contains (ToLower (TrimSpace ''30000'')) ''soc''"
    by code_simp+
  have h2: "\<forall>j < 10. \<not> zone_matches ?one j"
    by (simp add: zone_matches_def l)
  have h2': "\<forall>j < 10. \<not> zone_matches ?notemp j"
    by (simp add: zone_matches_def l)
  have h3: "?notemp (thermal_temp_path 0) = None"
    by code_simp
  have t0: "?one (thermal_temp_path 0) = Some ''30000''"
    by code_simp
  have p0: "?pf (TrimSpace ''30000'') = Some 30000"
    by code_simp
  have t2: "?three (thermal_temp_path 2) = Some ''48000''"
    by code_simp
  have p2: "?pf (TrimSpace ''48000'') = Some 48000"
    by code_simp
  have y0: "?three (thermal_type_path 0) = Some ''x86_pkg_temp''"
    by code_simp
  have y1: "?three (thermal_type_path 1) = Some ''acpitz''"
    by code_simp
  have y2: "?three (thermal_type_path 2) = Some ''cpu-thermal''"
    by code_simp
  note i3 = readCPUTemperature_selection
    [where fs = ?three and fs' = ?three and pf = ?pf and path' = "thermal_temp_path 2"
       and data = "''48000''" and millideg = 48000]
  note i1 = readCPUTemperature_selection
    [where fs = ?one and pf = ?pf and path' = "thermal_temp_path 0"
       and data = "''30000''" and millideg = 30000]
  note i0 = readCPUTemperature_selection
    [where fs = ?notemp and pf = ?pf and path = "thermal_temp_path 0"]
  have a: "readCPUTemperature ?three ?pf = readThermalTemp ?three ?pf (thermal_temp_path 2)"
    using i3 y0 y1 y2 by blast
  have b: "readThermalTemp ?three ?pf (thermal_temp_path 2) = Some (48000 / 1000)"
    using i3 t2 p2 by blast
  have c: "readCPUTemperature ?one ?pf = readThermalTemp ?one ?pf (thermal_temp_path 0)"
    using i1 h2 by blast
  have d: "readThermalTemp ?one ?pf (thermal_temp_path 0) = Some (30000 / 1000)"
    using i1 t0 p0 by blast
  have e: "readCPUTemperature ?notemp ?pf = readThermalTemp ?notemp ?pf (thermal_temp_path 0)"
    using i0 h2' by blast
  have f: "readThermalTemp ?notemp ?pf (thermal_temp_path 0) = None"
    using i0 h3 by blast
  show ?thesis
    unfolding a b c d e f by simp
qed

section \<open>CPU frequency\<close>

lemma core_values_step:
  "i < n \<Longrightarrow> fs (cpufreq_path i) = Some data \<Longrightarrow>
   core_values fs pf i n =
     (case pf (TrimSpace data) of None \<Rightarrow> core_values fs pf (Suc i) n
      | Some v \<Rightarrow> v # core_values fs pf (Suc i) n)"
  by (simp add: core_values_def upt_conv_Cons split: option.splits)

lemma core_values_empty: "core_values fs pf n n = []"
  by (simp add: core_values_def)

lemma freq_loop_run:
  "i \<le> n \<Longrightarrow> n \<le> 256 \<Longrightarrow> 0 < n \<Longrightarrow>
   (\<forall>j. i \<le> j \<and> j < n \<longrightarrow> fs (cpufreq_path j) \<noteq> None) \<Longrightarrow>
   (n < 256 \<longrightarrow> fs (cpufreq_path n) = None) \<Longrightarrow>
   freq_loop fs pf i t c =
     Some (t + sum_list (core_values fs pf i n), c + length (core_values fs pf i n))"
proof (induction i arbitrary: t c rule: inc_induct)
  case base
  then show ?case
    by (subst freq_loop.simps) (auto simp: core_values_empty)
next
  case (step k)
  from step.prems step.hyps obtain data where d: "fs (cpufreq_path k) = Some data"
    by (metis le_refl not_Some_eq)
  have k: "k < 256" using step.hyps step.prems by simp
  have ih: "freq_loop fs pf (Suc k) t' c' =
     Some (t' + sum_list (core_values fs pf (Suc k) n), c' + length (core_values fs pf (Suc k) n))"
    for t' c'
    using step.prems step.hyps by (intro step.IH) auto
  show ?case
    using d k step.hyps
    by (subst freq_loop.simps) (simp add: ih core_values_step split: option.splits)
qed

text \<open>
  C5. When the frequency file of core 0 cannot be read, \<open>readCPUFrequency\<close> returns no
  sample. Otherwise, with \<open>n\<close> the first index whose file cannot be read (or the bound 256
  of the loop), the files of the cores below \<open>n\<close> are all read; those whose content does
  not parse are skipped and do not count, and the result is the sum of the parsed values
  divided by their number and by 1000. When no value was parsed there is no sample. Two
  cores reporting 1200000 and 1800000 kHz give 1500 MHz.
\<close>

theorem readCPUFrequency_average:
  "(fs (cpufreq_path 0) = None \<longrightarrow> readCPUFrequency fs pf = None) \<and>
   (0 < n \<and> n \<le> 256 \<and> (\<forall>j < n. fs' (cpufreq_path j) \<noteq> None)
      \<and> (n < 256 \<longrightarrow> fs' (cpufreq_path n) = None) \<longrightarrow>
      readCPUFrequency fs' pf =
        (if core_values fs' pf 0 n = [] then None
         else Some (sum_list (core_values fs' pf 0 n) / real (length (core_values fs' pf 0 n)) / 1000))) \<and>
   (fs'' (cpufreq_path 0) = Some d0 \<and> fs'' (cpufreq_path 1) = Some d1 \<and> fs'' (cpufreq_path 2) = None
      \<and> pf (TrimSpace d0) = Some 1200000 \<and> pf (TrimSpace d1) = Some 1800000 \<longrightarrow>
      readCPUFrequency fs'' pf = Some 1500)"
proof -
  have c1: "readCPUFrequency fs pf = None" if "fs (cpufreq_path 0) = None"
    using that unfolding readCPUFrequency_def
    by (subst freq_loop.simps) simp
  have c2: "readCPUFrequency fs' pf =
        (if core_values fs' pf 0 n = [] then None
         else Some (sum_list (core_values fs' pf 0 n) / real (length (core_values fs' pf 0 n)) / 1000))"
    if a: "0 < n \<and> n \<le> 256 \<and> (\<forall>j < n. fs' (cpufreq_path j) \<noteq> None)
      \<and> (n < 256 \<longrightarrow> fs' (cpufreq_path n) = None)" for fs' n
  proof -
    from a have "freq_loop fs' pf 0 0 0 =
        Some (0 + sum_list (core_values fs' pf 0 n), 0 + length (core_values fs' pf 0 n))"
      by (intro freq_loop_run) auto
    then show ?thesis
      by (simp add: readCPUFrequency_def)
  qed
  have c3: "readCPUFrequency fs'' pf = Some 1500"
    if a: "fs'' (cpufreq_path 0) = Some d0 \<and> fs'' (cpufreq_path 1) = Some d1 \<and> fs'' (cpufreq_path 2) = None
      \<and> pf (TrimSpace d0) = Some 1200000 \<and> pf (TrimSpace d1) = Some 1800000"
  proof -
    have "\<forall>j < 2. fs'' (cpufreq_path j) \<noteq> None"
    proof (intro allI impI)
      fix j :: nat assume "j < 2"
      then have "j = 0 \<or> j = 1" by auto
      with a show "fs'' (cpufreq_path j) \<noteq> None" by auto
    qed
    with a have r: "readCPUFrequency fs'' pf =
        (if core_values fs'' pf 0 2 = [] then None
         else Some (sum_list (core_values fs'' pf 0 2) / real (length (core_values fs'' pf 0 2)) / 1000))"
      by (intro c2) simp
    have "[0..<2] = [0, Suc 0]"
      by (simp add: upt_conv_Cons)
    with a have "core_values fs'' pf 0 2 = [1200000, 1800000]"
      by (simp add: core_values_def List.map_filter_simps)
    with r show ?thesis by simp
  qed
  show ?thesis using c1 c2 c3 by blast
qed

theorem readCPUFrequency_average_witness:
  "readCPUFrequency
     (\<lambda>p. if p = ''/sys/devices/system/cpu/cpu0/cpufreq/scaling_cur_freq'' then Some ''1200000''
          else if p = ''/sys/devices/system/cpu/cpu1/cpufreq/scaling_cur_freq'' then Some ''garbage''
          else if p = ''/sys/devices/system/cpu/cpu2/cpufreq/scaling_cur_freq'' then Some ''1800000''
          else if p = ''/sys/devices/system/cpu/cpu4/cpufreq/scaling_cur_freq'' then Some ''9900000''
          else None)
     (\<lambda>s. if s = ''1200000'' then Some 1200000 else if s = ''1800000'' then Some 1800000
          else if s = ''9900000'' then Some 9900000 else None)
   = Some 1500
   \<and> readCPUFrequency
     (\<lambda>p. if p = ''/sys/devices/system/cpu/cpu1/cpufreq/scaling_cur_freq'' then Some ''1800000'' else None)
     (\<lambda>s. if s = ''1200000'' then Some 1200000 else if s = ''1800000'' then Some 1800000
          else if s = ''9900000'' then Some 9900000 else None)
   = None
   \<and> readCPUFrequency
     (\<lambda>p. if p = ''/sys/devices/system/cpu/cpu0/cpufreq/scaling_cur_freq'' then Some ''1200000''
          else if p = ''/sys/devices/system/cpu/cpu1/cpufreq/scaling_cur_freq'' then Some ''1800000''
          else None)
     (\<lambda>s. if s = ''1200000'' then Some 1200000 else if s = ''1800000'' then Some 1800000
          else if s = ''9900000'' then Some 9900000 else None)
   = Some 1500"
proof -
  let ?gap = "\<lambda>p. if p = ''/sys/devices/system/cpu/cpu0/cpufreq/scaling_cur_freq'' then Some ''1200000''
          else if p = ''/sys/devices/system/cpu/cpu1/cpufreq/scaling_cur_freq'' then Some ''garbage''
          else if p = ''/sys/devices/system/cpu/cpu2/cpufreq/scaling_cur_freq'' then Some ''1800000''
          else if p = ''/sys/devices/system/cpu/cpu4/cpufreq/scaling_cur_freq'' then Some ''9900000''
          else None"
  let ?nozero = "\<lambda>p. if p = ''/sys/devices/system/cpu/cpu1/cpufreq/scaling_cur_freq'' then Some ''1800000'' else None"
  let ?two = "\<lambda>p. if p = ''/sys/devices/system/cpu/cpu0/cpufreq/scaling_cur_freq'' then Some ''1200000''
          else if p = ''/sys/devices/system/cpu/cpu1/cpufreq/scaling_cur_freq'' then Some ''1800000''
          else None"
  let ?pf = "\<lambda>s. if s = ''1200000'' then Some (1200000 :: real) else if s = ''1800000'' then Some 1800000
          else if s = ''9900000'' then Some 9900000 else None"
  have paths: "cpufreq_path 0 = ''/sys/devices/system/cpu/cpu0/cpufreq/scaling_cur_freq''"
    "cpufreq_path 1 = ''/sys/devices/system/cpu/cpu1/cpufreq/scaling_cur_freq''"
    "cpufreq_path 2 = ''/sys/devices/system/cpu/cpu2/cpufreq/scaling_cur_freq''"
    "cpufreq_path 3 = ''/sys/devices/system/cpu/cpu3/cpufreq/scaling_cur_freq''"
    "cpufreq_path (Suc 0) = ''/sys/devices/system/cpu/cpu1/cpufreq/scaling_cur_freq''"
    by code_simp+
  have trims: "TrimSpace ''1200000'' = ''1200000''" "TrimSpace ''1800000'' = ''1800000''"
    "TrimSpace ''garbage'' = ''garbage''"
    by code_simp+
  have h0: "?nozero (cpufreq_path 0) = None"
    by (simp add: paths)
  have all: "\<forall>j < 3. ?gap (cpufreq_path j) \<noteq> None"
  proof (intro allI impI)
    fix j :: nat
    assume "j < 3"
    then consider "j = 0" | "j = 1" | "j = 2"
      by linarith
    then show "?gap (cpufreq_path j) \<noteq> None"
      by cases (simp_all add: paths)
  qed
  have h1: "0 < (3 :: nat) \<and> (3 :: nat) \<le> 256 \<and> (\<forall>j < 3. ?gap (cpufreq_path j) \<noteq> None)
      \<and> ((3 :: nat) < 256 \<longrightarrow> ?gap (cpufreq_path 3) = None)"
    using all by (simp add: paths)
  have h2: "?two (cpufreq_path 0) = Some ''1200000'' \<and> ?two (cpufreq_path 1) = Some ''1800000''
      \<and> ?two (cpufreq_path 2) = None
      \<and> ?pf (TrimSpace ''1200000'') = Some 1200000 \<and> ?pf (TrimSpace ''1800000'') = Some 1800000"
    by (simp add: paths trims)
  have "[0..<3] = [0, 1, 2]"
    by (simp add: upt_conv_Cons)
  then have v: "core_values ?gap ?pf 0 3 = [1200000, 1800000]"
    by (simp add: core_values_def List.map_filter_simps paths trims)
  note ia = readCPUFrequency_average
    [where fs = ?nozero and pf = ?pf and n = 3 and fs' = ?gap and fs'' = ?two
       and ?d0.0 = "''1200000''" and ?d1.0 = "''1800000''"]
  have a: "readCPUFrequency ?gap ?pf = Some 1500"
    using ia [THEN conjunct2, THEN conjunct1, THEN mp, OF h1] by (simp add: v)
  have b: "readCPUFrequency ?nozero ?pf = None"
    using ia h0 by blast
  have c: "readCPUFrequency ?two ?pf = Some 1500"
    using ia h2 by blast
  show ?thesis
    using a b c by blast
qed

section \<open>Memory\<close>

text \<open>
  When the file opens and the scan ends without error, both samples are sent, and the used
  value is always the \<open>uint64\<close> difference: a \<open>float64\<close> made from a \<open>uint64\<close> is never
  below 0, so the branch \<open>usedBytes < 0\<close> of the source is never taken.
\<close>

lemma MemoryCollector_Collect_opened:
  "\<not> scan_err t \<Longrightarrow>
   MemoryCollector_Collect (Some t) =
     (let m = meminfo_scan Map.empty (scanned t)
      in [MustNewConstMetric ''memory_total_bytes'' GaugeValue
            (real (unat (index m ''MemTotal'')) * 1024) [],
          MustNewConstMetric ''memory_used_bytes'' GaugeValue
            (real (unat (index m ''MemTotal'' - index m ''MemFree'' - index m ''Buffers''
                         - index m ''Cached'')) * 1024) []])"
  unfolding MemoryCollector_Collect_def readMemInfo_def Let_def
  by (simp add: unsigned_real_nonneg [THEN leD])

text \<open>
  The example of the specification: total 1000 kB, free 200 kB, buffers 100 kB and cached
  100 kB give a used value of \<open>600 * 1024\<close> bytes.
\<close>

lemma memory_example:
  "MemoryCollector_Collect
     (Some \<lparr>scanned = [''MemTotal: 1000 kB'', ''MemFree: 200 kB'', ''Buffers: 100 kB'',
                        ''Cached: 100 kB''],
             scan_err = False\<rparr>)
   = [\<lparr>desc = ''memory_total_bytes'', vtype = GaugeValue, val = 1000 * 1024, labels = []\<rparr>,
      \<lparr>desc = ''memory_used_bytes'', vtype = GaugeValue, val = 600 * 1024, labels = []\<rparr>]"
proof -
  let ?lines = "[''MemTotal: 1000 kB'', ''MemFree: 200 kB'', ''Buffers: 100 kB'', ''Cached: 100 kB'']"
  have idx: "index (meminfo_scan Map.empty ?lines) ''MemTotal'' = 1000"
    "index (meminfo_scan Map.empty ?lines) ''MemFree'' = 200"
    "index (meminfo_scan Map.empty ?lines) ''Buffers'' = 100"
    "index (meminfo_scan Map.empty ?lines) ''Cached'' = 100"
    by code_simp+
  show ?thesis
    by (simp add: MemoryCollector_Collect_opened Let_def idx MustNewConstMetric_def
        del: meminfo_scan.simps)
qed

text \<open>
  C2. With total 1000 kB, free 500 kB, buffers 300 kB and cached 300 kB the difference
  \<open>total - free - buffers - cached\<close> is \<open>-100\<close>, and the claim asks for the fallback
  \<open>(1000 - 500) * 1024 = 512000\<close>. The source subtracts in \<open>uint64\<close>: the difference wraps
  to \<open>2 ^ 64 - 100\<close>, the test for a negative value fails, and the used sample is
  \<open>(2 ^ 64 - 100) * 1024\<close>.
\<close>

theorem memory_negative_used_wraps:
  "MemoryCollector_Collect
     (Some \<lparr>scanned = [''MemTotal: 1000 kB'', ''MemFree: 500 kB'', ''Buffers: 300 kB'',
                        ''Cached: 300 kB''],
             scan_err = False\<rparr>)
   = [\<lparr>desc = ''memory_total_bytes'', vtype = GaugeValue, val = 1000 * 1024, labels = []\<rparr>,
      \<lparr>desc = ''memory_used_bytes'', vtype = GaugeValue,
        val = 18446744073709551516 * 1024, labels = []\<rparr>]"
proof -
  let ?lines = "[''MemTotal: 1000 kB'', ''MemFree: 500 kB'', ''Buffers: 300 kB'', ''Cached: 300 kB'']"
  have idx: "index (meminfo_scan Map.empty ?lines) ''MemTotal'' = 1000"
    "index (meminfo_scan Map.empty ?lines) ''MemFree'' = 500"
    "index (meminfo_scan Map.empty ?lines) ''Buffers'' = 300"
    "index (meminfo_scan Map.empty ?lines) ''Cached'' = 300"
    by code_simp+
  show ?thesis
    by (simp add: MemoryCollector_Collect_opened Let_def idx MustNewConstMetric_def
        del: meminfo_scan.simps)
qed

text \<open>
  C4, as the claim states it, fails twice. A file that opens and holds none of the four
  keys still gives both samples, with the value 0; and a file that opens and whose scan ends
  with an error gives no sample, although it could be opened.
\<close>

theorem memory_missing_keys_counterexample:
  "MemoryCollector_Collect (Some \<lparr>scanned = [], scan_err = False\<rparr>)
     = [\<lparr>desc = ''memory_total_bytes'', vtype = GaugeValue, val = 0, labels = []\<rparr>,
        \<lparr>desc = ''memory_used_bytes'', vtype = GaugeValue, val = 0, labels = []\<rparr>]
   \<and> MemoryCollector_Collect
        (Some \<lparr>scanned = [''MemTotal: 1000 kB'', ''MemFree: 200 kB'', ''Buffers: 100 kB'',
                           ''Cached: 100 kB''],
                scan_err = True\<rparr>) = []"
  by (simp add: MemoryCollector_Collect_def readMemInfo_def index_def Let_def MustNewConstMetric_def)

text \<open>
  C4, amended. \<open>Collect\<close> sends nothing exactly when the file cannot be opened or the scan
  ends with an error. In every other case it sends the total and the used sample, whatever
  keys the file holds; when none of \<open>MemTotal\<close>, \<open>MemFree\<close>, \<open>Buffers\<close> and \<open>Cached\<close> is
  in the parsed map, each of them is read as 0 and both samples are 0.
\<close>

theorem MemoryCollector_Collect_emits:
  "(MemoryCollector_Collect f = [] \<longleftrightarrow> (case f of None \<Rightarrow> True | Some t \<Rightarrow> scan_err t)) \<and>
   (\<not> scan_err t1 \<longrightarrow>
      map desc (MemoryCollector_Collect (Some t1)) = [''memory_total_bytes'', ''memory_used_bytes'']) \<and>
   (\<not> scan_err t2 \<and>
      (\<forall>k \<in> {''MemTotal'', ''MemFree'', ''Buffers'', ''Cached''}.
          meminfo_scan Map.empty (scanned t2) k = None) \<longrightarrow>
      MemoryCollector_Collect (Some t2) =
        [MustNewConstMetric ''memory_total_bytes'' GaugeValue 0 [],
         MustNewConstMetric ''memory_used_bytes'' GaugeValue 0 []])"
proof -
  have c1: "MemoryCollector_Collect f = [] \<longleftrightarrow> (case f of None \<Rightarrow> True | Some t \<Rightarrow> scan_err t)"
    by (auto simp: MemoryCollector_Collect_def readMemInfo_def Let_def split: option.splits)
  have c2: "map desc (MemoryCollector_Collect (Some t1)) = [''memory_total_bytes'', ''memory_used_bytes'']"
    if "\<not> scan_err t1"
    using that by (simp add: MemoryCollector_Collect_opened Let_def MustNewConstMetric_def)
  have c3: "MemoryCollector_Collect (Some t2) =
        [MustNewConstMetric ''memory_total_bytes'' GaugeValue 0 [],
         MustNewConstMetric ''memory_used_bytes'' GaugeValue 0 []]"
    if "\<not> scan_err t2 \<and>
      (\<forall>k \<in> {''MemTotal'', ''MemFree'', ''Buffers'', ''Cached''}.
          meminfo_scan Map.empty (scanned t2) k = None)"
    using that by (simp add: MemoryCollector_Collect_opened Let_def index_def)
  show ?thesis
    using c1 c2 c3 by blast
qed

theorem MemoryCollector_Collect_emits_witness:
  "MemoryCollector_Collect None = []
   \<and> map desc (MemoryCollector_Collect
        (Some \<lparr>scanned = [''MemTotal: 1000 kB'', ''Junk''], scan_err = False\<rparr>))
       = [''memory_total_bytes'', ''memory_used_bytes'']
   \<and> MemoryCollector_Collect
        (Some \<lparr>scanned = [''SwapTotal: 5 kB'', ''MemFree: lots''], scan_err = False\<rparr>)
       = [\<lparr>desc = ''memory_total_bytes'', vtype = GaugeValue, val = 0, labels = []\<rparr>,
          \<lparr>desc = ''memory_used_bytes'', vtype = GaugeValue, val = 0, labels = []\<rparr>]"
proof -
  let ?a = "\<lparr>scanned = [''MemTotal: 1000 kB'', ''Junk''], scan_err = False\<rparr>"
  let ?b = "\<lparr>scanned = [''SwapTotal: 5 kB'', ''MemFree: lots''], scan_err = False\<rparr>"
  have h1: "\<not> scan_err ?a"
    by simp
  have k: "meminfo_scan Map.empty [''SwapTotal: 5 kB'', ''MemFree: lots''] ''MemTotal'' = None"
    "meminfo_scan Map.empty [''SwapTotal: 5 kB'', ''MemFree: lots''] ''MemFree'' = None"
    "meminfo_scan Map.empty [''SwapTotal: 5 kB'', ''MemFree: lots''] ''Buffers'' = None"
    "meminfo_scan Map.empty [''SwapTotal: 5 kB'', ''MemFree: lots''] ''Cached'' = None"
    by code_simp+
  have h2: "\<not> scan_err ?b \<and>
      (\<forall>k \<in> {''MemTotal'', ''MemFree'', ''Buffers'', ''Cached''}.
          meminfo_scan Map.empty (scanned ?b) k = None)"
    by (simp add: k del: meminfo_scan.simps)
  note i = MemoryCollector_Collect_emits [where f = None and ?t1.0 = ?a and ?t2.0 = ?b]
  have x: "MemoryCollector_Collect None = []"
    using i by simp
  have y: "map desc (MemoryCollector_Collect (Some ?a)) = [''memory_total_bytes'', ''memory_used_bytes'']"
    using i h1 by blast
  have z: "MemoryCollector_Collect (Some ?b) =
        [MustNewConstMetric ''memory_total_bytes'' GaugeValue 0 [],
         MustNewConstMetric ''memory_used_bytes'' GaugeValue 0 []]"
    using i h2 by blast
  show ?thesis
    unfolding x y z by (simp add: MustNewConstMetric_def)
qed

section \<open>GPU\<close>

lemma parseNvidiaSmiFloat_cases:
  "parseNvidiaSmiFloat pf s =
     (if TrimSpace s \<in> {'''', ''[N/A]'', ''N/A''} then 0
      else case pf (TrimSpace s) of None \<Rightarrow> 0 | Some v \<Rightarrow> v)"
  by (simp add: parseNvidiaSmiFloat_def Let_def)

lemma Split_nonempty: "Split s sep \<noteq> []"
  by (induction s) (auto split: list.splits)

text \<open>
  C7. \<open>Collect\<close> sends nothing when the tool fails, and nothing when the first line of its
  trimmed output has fewer than four fields between commas. With four fields or more it
  sends the four samples, utilization, temperature, frequency and power, read from the
  fields 0, 1, 3 and 2. A field is 0 when, trimmed, it is empty, \<open>N/A\<close> or \<open>[N/A]\<close>, or
  does not parse, whatever the other fields are, and the parsed value otherwise. The output
  \<open>45, 62, 12.5, 1300\<close> gives utilization 45, temperature 62, power 12.5, frequency 1300.
\<close>

theorem GPUCollector_Collect_all_or_nothing:
  "GPUCollector_Collect pf None = [] \<and>
   (length (Split (hd (Split (TrimSpace out1) (CHR 0x0A))) (CHR '','')) < 4 \<longrightarrow>
      GPUCollector_Collect pf (Some out1) = []) \<and>
   (Split (hd (Split (TrimSpace out2) (CHR 0x0A))) (CHR '','') = f0 # f1 # f2 # f3 # rest \<longrightarrow>
      GPUCollector_Collect pf (Some out2) =
        [MustNewConstMetric ''gpu_utilization_percent'' GaugeValue (parseNvidiaSmiFloat pf f0) [],
         MustNewConstMetric ''gpu_temperature_celsius'' GaugeValue (parseNvidiaSmiFloat pf f1) [],
         MustNewConstMetric ''gpu_frequency_mhz'' GaugeValue (parseNvidiaSmiFloat pf f3) [],
         MustNewConstMetric ''gpu_power_watts'' GaugeValue (parseNvidiaSmiFloat pf f2) []]) \<and>
   (TrimSpace s1 \<in> {'''', ''[N/A]'', ''N/A''} \<or> pf (TrimSpace s1) = None \<longrightarrow>
      parseNvidiaSmiFloat pf s1 = 0) \<and>
   (TrimSpace s2 \<notin> {'''', ''[N/A]'', ''N/A''} \<and> pf (TrimSpace s2) = Some v \<longrightarrow>
      parseNvidiaSmiFloat pf s2 = v) \<and>
   (pf ''45'' = Some 45 \<and> pf ''62'' = Some 62 \<and> pf ''12.5'' = Some 12.5 \<and> pf ''1300'' = Some 1300 \<longrightarrow>
      GPUCollector_Collect pf (Some ''45, 62, 12.5, 1300'') =
        [MustNewConstMetric ''gpu_utilization_percent'' GaugeValue 45 [],
         MustNewConstMetric ''gpu_temperature_celsius'' GaugeValue 62 [],
         MustNewConstMetric ''gpu_frequency_mhz'' GaugeValue 1300 [],
         MustNewConstMetric ''gpu_power_watts'' GaugeValue 12.5 []])"
proof -
  have c1: "GPUCollector_Collect pf None = []"
    by (simp add: GPUCollector_Collect_def)
  have c2: "GPUCollector_Collect pf (Some out1) = []"
    if "length (Split (hd (Split (TrimSpace out1) (CHR 0x0A))) (CHR '','')) < 4"
    using that by (simp add: GPUCollector_Collect_def Let_def hd_conv_nth Split_nonempty)
  have c3: "GPUCollector_Collect pf (Some out2) =
        [MustNewConstMetric ''gpu_utilization_percent'' GaugeValue (parseNvidiaSmiFloat pf f0) [],
         MustNewConstMetric ''gpu_temperature_celsius'' GaugeValue (parseNvidiaSmiFloat pf f1) [],
         MustNewConstMetric ''gpu_frequency_mhz'' GaugeValue (parseNvidiaSmiFloat pf f3) [],
         MustNewConstMetric ''gpu_power_watts'' GaugeValue (parseNvidiaSmiFloat pf f2) []]"
    if "Split (hd (Split (TrimSpace out2) (CHR 0x0A))) (CHR '','') = f0 # f1 # f2 # f3 # rest"
    for out2 f0 f1 f2 f3 rest
    using that by (simp add: GPUCollector_Collect_def Let_def hd_conv_nth Split_nonempty)
  have c4: "parseNvidiaSmiFloat pf s1 = 0"
    if "TrimSpace s1 \<in> {'''', ''[N/A]'', ''N/A''} \<or> pf (TrimSpace s1) = None"
    using that by (auto simp: parseNvidiaSmiFloat_cases)
  have c5: "parseNvidiaSmiFloat pf s2 = v"
    if "TrimSpace s2 \<notin> {'''', ''[N/A]'', ''N/A''} \<and> pf (TrimSpace s2) = Some v" for s2 v
    using that by (auto simp: parseNvidiaSmiFloat_cases)
  have c6: "GPUCollector_Collect pf (Some ''45, 62, 12.5, 1300'') =
        [MustNewConstMetric ''gpu_utilization_percent'' GaugeValue 45 [],
         MustNewConstMetric ''gpu_temperature_celsius'' GaugeValue 62 [],
         MustNewConstMetric ''gpu_frequency_mhz'' GaugeValue 1300 [],
         MustNewConstMetric ''gpu_power_watts'' GaugeValue 12.5 []]"
    if a: "pf ''45'' = Some 45 \<and> pf ''62'' = Some 62 \<and> pf ''12.5'' = Some 12.5 \<and> pf ''1300'' = Some 1300"
  proof -
    have f: "Split (hd (Split (TrimSpace ''45, 62, 12.5, 1300'') (CHR 0x0A))) (CHR '','')
        = [''45'', '' 62'', '' 12.5'', '' 1300'']"
      by code_simp
    have t: "TrimSpace ''45'' = ''45''" "TrimSpace '' 62'' = ''62''"
      "TrimSpace '' 12.5'' = ''12.5''" "TrimSpace '' 1300'' = ''1300''"
      by code_simp+
    have p: "parseNvidiaSmiFloat pf ''45'' = 45" "parseNvidiaSmiFloat pf '' 62'' = 62"
      "parseNvidiaSmiFloat pf '' 12.5'' = 12.5" "parseNvidiaSmiFloat pf '' 1300'' = 1300"
      using a by (simp_all add: parseNvidiaSmiFloat_cases t)
    show ?thesis
      unfolding c3 [OF f] p ..
  qed
  show ?thesis
    using c1 c2 c3 c4 c5 c6 by blast
qed

theorem GPUCollector_Collect_all_or_nothing_witness:
  "GPUCollector_Collect
     (\<lambda>s. if s = ''45'' then Some 45 else if s = ''62'' then Some 62
          else if s = ''12.5'' then Some 12.5 else if s = ''1300'' then Some 1300 else None)
     (Some ''45, 62, 12.5'') = []
   \<and> map val (GPUCollector_Collect
     (\<lambda>s. if s = ''45'' then Some 45 else if s = ''62'' then Some 62
          else if s = ''12.5'' then Some 12.5 else if s = ''1300'' then Some 1300 else None)
     (Some ''[N/A], 62, watts, 1300'')) = [0, 62, 1300, 0]
   \<and> map val (GPUCollector_Collect
     (\<lambda>s. if s = ''45'' then Some 45 else if s = ''62'' then Some 62
          else if s = ''12.5'' then Some 12.5 else if s = ''1300'' then Some 1300 else None)
     (Some ''45, 62, 12.5, 1300'')) = [45, 62, 1300, 12.5]"
proof -
  let ?pf = "\<lambda>s. if s = ''45'' then Some (45 :: real) else if s = ''62'' then Some 62
          else if s = ''12.5'' then Some 12.5 else if s = ''1300'' then Some 1300 else None"
  have h1: "length (Split (hd (Split (TrimSpace ''45, 62, 12.5'') (CHR 0x0A))) (CHR '','')) < 4"
    by code_simp
  have h2: "Split (hd (Split (TrimSpace ''[N/A], 62, watts, 1300'') (CHR 0x0A))) (CHR '','')
      = ''[N/A]'' # '' 62'' # '' watts'' # '' 1300'' # []"
    by code_simp
  have t: "TrimSpace ''[N/A]'' = ''[N/A]''" "TrimSpace '' 62'' = ''62''"
    "TrimSpace '' watts'' = ''watts''" "TrimSpace '' 1300'' = ''1300''"
    by code_simp+
  have h3: "TrimSpace ''[N/A]'' \<in> {'''', ''[N/A]'', ''N/A''} \<or> ?pf (TrimSpace ''[N/A]'') = None"
    by (simp add: t)
  have h3': "TrimSpace '' watts'' \<in> {'''', ''[N/A]'', ''N/A''} \<or> ?pf (TrimSpace '' watts'') = None"
    by (simp add: t)
  have h4: "TrimSpace '' 62'' \<notin> {'''', ''[N/A]'', ''N/A''} \<and> ?pf (TrimSpace '' 62'') = Some 62"
    by (simp add: t)
  have h4': "TrimSpace '' 1300'' \<notin> {'''', ''[N/A]'', ''N/A''} \<and> ?pf (TrimSpace '' 1300'') = Some 1300"
    by (simp add: t)
  have h5: "?pf ''45'' = Some 45 \<and> ?pf ''62'' = Some 62 \<and> ?pf ''12.5'' = Some 12.5
      \<and> ?pf ''1300'' = Some 1300"
    by simp
  note g = GPUCollector_Collect_all_or_nothing [where pf = ?pf]
  have a: "GPUCollector_Collect ?pf (Some ''45, 62, 12.5'') = []"
    using g [where ?out1.0 = "''45, 62, 12.5''"] h1 by blast
  have p: "parseNvidiaSmiFloat ?pf ''[N/A]'' = 0"
    using g [where ?s1.0 = "''[N/A]''"] h3 by blast
  have p': "parseNvidiaSmiFloat ?pf '' watts'' = 0"
    using g [where ?s1.0 = "'' watts''"] h3' by blast
  have q: "parseNvidiaSmiFloat ?pf '' 62'' = 62"
    using g [where ?s2.0 = "'' 62''" and v = 62] h4 by blast
  have q': "parseNvidiaSmiFloat ?pf '' 1300'' = 1300"
    using g [where ?s2.0 = "'' 1300''" and v = 1300] h4' by blast
  have b: "GPUCollector_Collect ?pf (Some ''[N/A], 62, watts, 1300'') =
        [MustNewConstMetric ''gpu_utilization_percent'' GaugeValue (parseNvidiaSmiFloat ?pf ''[N/A]'') [],
         MustNewConstMetric ''gpu_temperature_celsius'' GaugeValue (parseNvidiaSmiFloat ?pf '' 62'') [],
         MustNewConstMetric ''gpu_frequency_mhz'' GaugeValue (parseNvidiaSmiFloat ?pf '' 1300'') [],
         MustNewConstMetric ''gpu_power_watts'' GaugeValue (parseNvidiaSmiFloat ?pf '' watts'') []]"
    using g [where ?out2.0 = "''[N/A], 62, watts, 1300''" and ?f0.0 = "''[N/A]''" and ?f1.0 = "'' 62''"
        and ?f2.0 = "'' watts''" and ?f3.0 = "'' 1300''" and rest = "[]"] h2 by blast
  have c: "GPUCollector_Collect ?pf (Some ''45, 62, 12.5, 1300'') =
        [MustNewConstMetric ''gpu_utilization_percent'' GaugeValue 45 [],
         MustNewConstMetric ''gpu_temperature_celsius'' GaugeValue 62 [],
         MustNewConstMetric ''gpu_frequency_mhz'' GaugeValue 1300 [],
         MustNewConstMetric ''gpu_power_watts'' GaugeValue 12.5 []]"
    using g h5 by blast
  show ?thesis
    unfolding a b c p p' q q' by (simp add: MustNewConstMetric_def)
qed

section \<open>Network\<close>

lemma labelled_append: "labelled l (xs @ ys) = labelled l xs @ labelled l ys"
  by (simp add: labelled_def)

lemma labelled_interface_samples:
  "labelled l (interface_samples fs iface) = (if l = iface then interface_samples fs iface else [])"
  by (auto simp: labelled_def interface_samples_def Let_def MustNewConstMetric_def)

lemma labelled_network_loop:
  "distinct ifaces \<Longrightarrow>
   labelled l (network_loop fs ifaces) =
     (if l \<in> set ifaces \<and> isInterfaceUp fs l then interface_samples fs l else [])"
proof (induction ifaces)
  case Nil
  show ?case by (simp add: labelled_def)
next
  case (Cons iface rest)
  then show ?case
    by (auto simp: labelled_append labelled_interface_samples)
qed

lemma labels_network_loop:
  "m \<in> set (network_loop fs ifaces) \<Longrightarrow>
   \<exists>iface \<in> set ifaces. labels m = [iface] \<and> isInterfaceUp fs iface"
  by (induction ifaces)
    (auto simp: interface_samples_def Let_def MustNewConstMetric_def split: if_splits)

lemma distinct_monitoredInterfaces: "distinct monitoredInterfaces"
  by (simp add: monitoredInterfaces_def)

lemma isInterfaceUp_iff:
  "isInterfaceUp fs iface \<longleftrightarrow>
     (\<exists>data. fs (Join [''/sys/class/net'', iface, ''operstate'']) = Some data \<and> TrimSpace data = ''up'')"
  by (auto simp: isInterfaceUp_def split: option.splits)

text \<open>
  C8. Every sample that \<open>Collect\<close> sends carries the name of an interface of the fixed
  list whose operstate file can be read and, trimmed, is exactly \<open>up\<close>. An interface that
  is not in the list has no sample, whatever the system holds for it; an interface of the
  list that is not up has none of the four counters; an interface of the list that is up
  has all four, received bytes, transmitted bytes, received packets and transmitted
  packets, each the value of its counter file, and 0 when that file cannot be read or does
  not parse.
\<close>

theorem NetworkCollector_Collect_invariant:
  "(m \<in> set (NetworkCollector_Collect fs) \<longrightarrow>
      (\<exists>iface \<in> set monitoredInterfaces. labels m = [iface] \<and>
         (\<exists>data. fs (Join [''/sys/class/net'', iface, ''operstate'']) = Some data
                  \<and> TrimSpace data = ''up''))) \<and>
   (i1 \<notin> set monitoredInterfaces \<longrightarrow> labelled i1 (NetworkCollector_Collect fs) = []) \<and>
   (i2 \<in> set monitoredInterfaces \<and>
      \<not> (\<exists>data. fs (Join [''/sys/class/net'', i2, ''operstate'']) = Some data \<and> TrimSpace data = ''up'') \<longrightarrow>
      labelled i2 (NetworkCollector_Collect fs) = []) \<and>
   (i3 \<in> set monitoredInterfaces \<and>
      (\<exists>data. fs (Join [''/sys/class/net'', i3, ''operstate'']) = Some data \<and> TrimSpace data = ''up'') \<longrightarrow>
      labelled i3 (NetworkCollector_Collect fs) =
        [MustNewConstMetric ''network_receive_bytes_total'' CounterValue
           (real (unat (readSysUint64 fs (Join [Join [''/sys/class/net'', i3, ''statistics''], ''rx_bytes''])))) [i3],
         MustNewConstMetric ''network_transmit_bytes_total'' CounterValue
           (real (unat (readSysUint64 fs (Join [Join [''/sys/class/net'', i3, ''statistics''], ''tx_bytes''])))) [i3],
         MustNewConstMetric ''network_receive_packets_total'' CounterValue
           (real (unat (readSysUint64 fs (Join [Join [''/sys/class/net'', i3, ''statistics''], ''rx_packets''])))) [i3],
         MustNewConstMetric ''network_transmit_packets_total'' CounterValue
           (real (unat (readSysUint64 fs (Join [Join [''/sys/class/net'', i3, ''statistics''], ''tx_packets''])))) [i3]]) \<and>
   (fs p = None \<or> (\<exists>data. fs p = Some data \<and> snd (ParseUint (TrimSpace data)) \<noteq> None) \<longrightarrow>
      readSysUint64 fs p = 0)"
proof -
  have c1: "\<exists>iface \<in> set monitoredInterfaces. labels m = [iface] \<and>
         (\<exists>data. fs (Join [''/sys/class/net'', iface, ''operstate'']) = Some data
                  \<and> TrimSpace data = ''up'')"
    if "m \<in> set (NetworkCollector_Collect fs)"
    using labels_network_loop [of m fs monitoredInterfaces] that
    unfolding NetworkCollector_Collect_def isInterfaceUp_iff by blast
  have l: "labelled l (NetworkCollector_Collect fs) =
     (if l \<in> set monitoredInterfaces \<and> isInterfaceUp fs l then interface_samples fs l else [])" for l
    unfolding NetworkCollector_Collect_def
    by (rule labelled_network_loop [OF distinct_monitoredInterfaces])
  have c2: "labelled i1 (NetworkCollector_Collect fs) = []" if "i1 \<notin> set monitoredInterfaces"
    using that by (simp add: l)
  have c3: "labelled i2 (NetworkCollector_Collect fs) = []"
    if "i2 \<in> set monitoredInterfaces \<and>
      \<not> (\<exists>data. fs (Join [''/sys/class/net'', i2, ''operstate'']) = Some data \<and> TrimSpace data = ''up'')"
  proof -
    from that have "\<not> isInterfaceUp fs i2"
      unfolding isInterfaceUp_iff by blast
    then show ?thesis by (simp add: l)
  qed
  have c4: "labelled i3 (NetworkCollector_Collect fs) =
        [MustNewConstMetric ''network_receive_bytes_total'' CounterValue
           (real (unat (readSysUint64 fs (Join [Join [''/sys/class/net'', i3, ''statistics''], ''rx_bytes''])))) [i3],
         MustNewConstMetric ''network_transmit_bytes_total'' CounterValue
           (real (unat (readSysUint64 fs (Join [Join [''/sys/class/net'', i3, ''statistics''], ''tx_bytes''])))) [i3],
         MustNewConstMetric ''network_receive_packets_total'' CounterValue
           (real (unat (readSysUint64 fs (Join [Join [''/sys/class/net'', i3, ''statistics''], ''rx_packets''])))) [i3],
         MustNewConstMetric ''network_transmit_packets_total'' CounterValue
           (real (unat (readSysUint64 fs (Join [Join [''/sys/class/net'', i3, ''statistics''], ''tx_packets''])))) [i3]]"
    if "i3 \<in> set monitoredInterfaces \<and>
      (\<exists>data. fs (Join [''/sys/class/net'', i3, ''operstate'']) = Some data \<and> TrimSpace data = ''up'')"
  proof -
    from that have "i3 \<in> set monitoredInterfaces" "isInterfaceUp fs i3"
      unfolding isInterfaceUp_iff by blast+
    then show ?thesis
      by (simp add: l interface_samples_def Let_def)
  qed
  have c5: "readSysUint64 fs p = 0"
    if "fs p = None \<or> (\<exists>data. fs p = Some data \<and> snd (ParseUint (TrimSpace data)) \<noteq> None)"
    using that by (auto simp: readSysUint64_def split: option.splits prod.splits)
  show ?thesis
    using c1 c2 c3 c4 c5 by blast
qed

theorem NetworkCollector_Collect_invariant_witness:
  "labelled ''eth0''
     (NetworkCollector_Collect
       (\<lambda>p. if p = ''/sys/class/net/eth0/operstate'' then Some ''up''
            else if p = ''/sys/class/net/enP7s7/operstate'' then Some '' up ''
            else if p = ''/sys/class/net/wlP9s9/operstate'' then Some ''down''
            else if p = ''/sys/class/net/wlP9s9/statistics/rx_bytes'' then Some ''77''
            else if p = ''/sys/class/net/enP7s7/statistics/rx_bytes'' then Some ''1234''
            else if p = ''/sys/class/net/enP7s7/statistics/tx_bytes'' then Some ''many''
            else None)) = []
   \<and> labelled ''wlP9s9''
     (NetworkCollector_Collect
       (\<lambda>p. if p = ''/sys/class/net/eth0/operstate'' then Some ''up''
            else if p = ''/sys/class/net/enP7s7/operstate'' then Some '' up ''
            else if p = ''/sys/class/net/wlP9s9/operstate'' then Some ''down''
            else if p = ''/sys/class/net/wlP9s9/statistics/rx_bytes'' then Some ''77''
            else if p = ''/sys/class/net/enP7s7/statistics/rx_bytes'' then Some ''1234''
            else if p = ''/sys/class/net/enP7s7/statistics/tx_bytes'' then Some ''many''
            else None)) = []
   \<and> map val (labelled ''enP7s7''
     (NetworkCollector_Collect
       (\<lambda>p. if p = ''/sys/class/net/eth0/operstate'' then Some ''up''
            else if p = ''/sys/class/net/enP7s7/operstate'' then Some '' up ''
            else if p = ''/sys/class/net/wlP9s9/operstate'' then Some ''down''
            else if p = ''/sys/class/net/wlP9s9/statistics/rx_bytes'' then Some ''77''
            else if p = ''/sys/class/net/enP7s7/statistics/rx_bytes'' then Some ''1234''
            else if p = ''/sys/class/net/enP7s7/statistics/tx_bytes'' then Some ''many''
            else None))) = [1234, 0, 0, 0]
   \<and> (\<exists>iface \<in> set monitoredInterfaces.
         labels \<lparr>desc = ''network_receive_bytes_total'', vtype = CounterValue, val = 1234,
                  labels = [''enP7s7'']\<rparr> = [iface] \<and>
         (\<exists>data. (\<lambda>p. if p = ''/sys/class/net/eth0/operstate'' then Some ''up''
            else if p = ''/sys/class/net/enP7s7/operstate'' then Some '' up ''
            else if p = ''/sys/class/net/wlP9s9/operstate'' then Some ''down''
            else if p = ''/sys/class/net/wlP9s9/statistics/rx_bytes'' then Some ''77''
            else if p = ''/sys/class/net/enP7s7/statistics/rx_bytes'' then Some ''1234''
            else if p = ''/sys/class/net/enP7s7/statistics/tx_bytes'' then Some ''many''
            else None) (Join [''/sys/class/net'', iface, ''operstate'']) = Some data
                  \<and> TrimSpace data = ''up''))"
proof -
  let ?sys = "\<lambda>p. if p = ''/sys/class/net/eth0/operstate'' then Some ''up''
            else if p = ''/sys/class/net/enP7s7/operstate'' then Some '' up ''
            else if p = ''/sys/class/net/wlP9s9/operstate'' then Some ''down''
            else if p = ''/sys/class/net/wlP9s9/statistics/rx_bytes'' then Some ''77''
            else if p = ''/sys/class/net/enP7s7/statistics/rx_bytes'' then Some ''1234''
            else if p = ''/sys/class/net/enP7s7/statistics/tx_bytes'' then Some ''many''
            else None"
  have t: "TrimSpace '' up '' = ''up''" "TrimSpace ''down'' = ''down''"
    "TrimSpace ''1234'' = ''1234''" "TrimSpace ''many'' = ''many''"
    by code_simp+
  have pu: "ParseUint ''1234'' = (1234, None)" "ParseUint ''many'' = (0, Some ErrSyntax)"
    by code_simp+
  have h1: "''eth0'' \<notin> set monitoredInterfaces"
    by (simp add: monitoredInterfaces_def)
  have h2: "''wlP9s9'' \<in> set monitoredInterfaces \<and>
      \<not> (\<exists>data. ?sys (Join [''/sys/class/net'', ''wlP9s9'', ''operstate'']) = Some data
              \<and> TrimSpace data = ''up'')"
    by (simp add: monitoredInterfaces_def t)
  have h3: "''enP7s7'' \<in> set monitoredInterfaces \<and>
      (\<exists>data. ?sys (Join [''/sys/class/net'', ''enP7s7'', ''operstate'']) = Some data
              \<and> TrimSpace data = ''up'')"
    by (simp add: monitoredInterfaces_def t)
  have h5: "?sys (Join [Join [''/sys/class/net'', ''enP7s7'', ''statistics''], ''rx_packets'']) = None
      \<or> (\<exists>data. ?sys (Join [Join [''/sys/class/net'', ''enP7s7'', ''statistics''], ''rx_packets'']) = Some data
            \<and> snd (ParseUint (TrimSpace data)) \<noteq> None)"
    by simp
  have h5': "?sys (Join [Join [''/sys/class/net'', ''enP7s7'', ''statistics''], ''tx_packets'']) = None
      \<or> (\<exists>data. ?sys (Join [Join [''/sys/class/net'', ''enP7s7'', ''statistics''], ''tx_packets'']) = Some data
            \<and> snd (ParseUint (TrimSpace data)) \<noteq> None)"
    by simp
  have h5'': "?sys (Join [Join [''/sys/class/net'', ''enP7s7'', ''statistics''], ''tx_bytes'']) = None
      \<or> (\<exists>data. ?sys (Join [Join [''/sys/class/net'', ''enP7s7'', ''statistics''], ''tx_bytes'']) = Some data
            \<and> snd (ParseUint (TrimSpace data)) \<noteq> None)"
    by (simp add: t pu)
  have r: "readSysUint64 ?sys (Join [Join [''/sys/class/net'', ''enP7s7'', ''statistics''], ''rx_bytes'']) = 1234"
    by (simp add: readSysUint64_def t pu)
  note n = NetworkCollector_Collect_invariant [where fs = ?sys]
  have a: "labelled ''eth0'' (NetworkCollector_Collect ?sys) = []"
    using n [where ?i1.0 = "''eth0''"] h1 by blast
  have b: "labelled ''wlP9s9'' (NetworkCollector_Collect ?sys) = []"
    using n [where ?i2.0 = "''wlP9s9''"] h2 by blast
  have z1: "readSysUint64 ?sys (Join [Join [''/sys/class/net'', ''enP7s7'', ''statistics''], ''rx_packets'']) = 0"
    using n [where p = "Join [Join [''/sys/class/net'', ''enP7s7'', ''statistics''], ''rx_packets'']"] h5
    by blast
  have z2: "readSysUint64 ?sys (Join [Join [''/sys/class/net'', ''enP7s7'', ''statistics''], ''tx_packets'']) = 0"
    using n [where p = "Join [Join [''/sys/class/net'', ''enP7s7'', ''statistics''], ''tx_packets'']"] h5'
    by blast
  have z3: "readSysUint64 ?sys (Join [Join [''/sys/class/net'', ''enP7s7'', ''statistics''], ''tx_bytes'']) = 0"
    using n [where p = "Join [Join [''/sys/class/net'', ''enP7s7'', ''statistics''], ''tx_bytes'']"] h5''
    by blast
  have c: "labelled ''enP7s7'' (NetworkCollector_Collect ?sys) =
        [MustNewConstMetric ''network_receive_bytes_total'' CounterValue
           (real (unat (readSysUint64 ?sys (Join [Join [''/sys/class/net'', ''enP7s7'', ''statistics''], ''rx_bytes''])))) [''enP7s7''],
         MustNewConstMetric ''network_transmit_bytes_total'' CounterValue
           (real (unat (readSysUint64 ?sys (Join [Join [''/sys/class/net'', ''enP7s7'', ''statistics''], ''tx_bytes''])))) [''enP7s7''],
         MustNewConstMetric ''network_receive_packets_total'' CounterValue
           (real (unat (readSysUint64 ?sys (Join [Join [''/sys/class/net'', ''enP7s7'', ''statistics''], ''rx_packets''])))) [''enP7s7''],
         MustNewConstMetric ''network_transmit_packets_total'' CounterValue
           (real (unat (readSysUint64 ?sys (Join [Join [''/sys/class/net'', ''enP7s7'', ''statistics''], ''tx_packets''])))) [''enP7s7'']]"
    using n [where ?i3.0 = "''enP7s7''"] h3 by blast
  let ?m = "\<lparr>desc = ''network_receive_bytes_total'', vtype = CounterValue, val = 1234,
             labels = [''enP7s7'']\<rparr>"
  have "?m \<in> set (labelled ''enP7s7'' (NetworkCollector_Collect ?sys))"
    unfolding c r z1 z2 z3 by (simp add: MustNewConstMetric_def)
  then have h0: "?m \<in> set (NetworkCollector_Collect ?sys)"
    by (simp add: labelled_def)
  have d: "\<exists>iface \<in> set monitoredInterfaces. labels ?m = [iface] \<and>
         (\<exists>data. ?sys (Join [''/sys/class/net'', iface, ''operstate'']) = Some data
                  \<and> TrimSpace data = ''up'')"
    using n [where m = ?m] h0 by blast
  have e: "labelled ''eth0'' (NetworkCollector_Collect ?sys) = []
      \<and> labelled ''wlP9s9'' (NetworkCollector_Collect ?sys) = []
      \<and> map val (labelled ''enP7s7'' (NetworkCollector_Collect ?sys)) = [1234, 0, 0, 0]"
    unfolding a b c r z1 z2 z3 by (simp add: MustNewConstMetric_def)
  show ?thesis
    using d e by blast
qed

end
